theory Spec2Isabelle
  imports Main "HOL-Library.Word"
begin

section \<open>Python values, exceptions and slices\<close>

text \<open>
  The module \<^verbatim>\<open>supyr_struct/buffer.py\<close> is embedded function by function. Every method
  takes the object it is called on and returns the outcome together with the object after
  the call, so that what a raising call leaves behind is part of the model:
  \<^verbatim>\<open>Inl e\<close> is the exception \<open>e\<close> propagating to the caller, \<^verbatim>\<open>Inr v\<close> is a normal return.
  Python integers are unbounded and modelled as \<open>int\<close>; a byte is an \<open>8 word\<close>.
\<close>

type_synonym byte = "8 word"

datatype exn =
    TypeError string
  | ValueError string
  | IndexError string
  | AssertionError string
  | IOError string
  | AttributeError string
  | FileNotFoundError string
  | BufferError string

text \<open>
  The arguments \<^verbatim>\<open>count\<close> and \<^verbatim>\<open>whence\<close> are untyped in the source. The values considered
  are \<^verbatim>\<open>None\<close>, an integer, and a string as the representative of an object for which
  \<^verbatim>\<open>int + obj\<close> raises \<^verbatim>\<open>TypeError\<close> and \<^verbatim>\<open>isinstance(obj, int)\<close> is false.
\<close>

datatype pyval = PyNone | PyInt int | PyStr string

abbreviation (input) SEEK_SET :: int where "SEEK_SET \<equiv> 0"
abbreviation (input) SEEK_CUR :: int where "SEEK_CUR \<equiv> 1"
abbreviation (input) SEEK_END :: int where "SEEK_END \<equiv> 2"

text \<open>
  Python's slice bounds on a sequence of length \<open>n\<close>: a negative bound counts from the end,
  and the result is clipped to \<open>[0, n]\<close>. \<^verbatim>\<open>xs[a:b]\<close> is empty when the adjusted stop is not
  after the adjusted start; \<^verbatim>\<open>xs[a:b] = ys\<close> replaces the (possibly empty) range by \<open>ys\<close>.
\<close>

definition slice_index :: "int \<Rightarrow> nat \<Rightarrow> nat" where
  "slice_index i n = (if i < 0 then nat (max 0 (i + int n)) else min (nat i) n)"

definition py_slice :: "'a list \<Rightarrow> int \<Rightarrow> int \<Rightarrow> 'a list" where
  "py_slice xs a b =
     (let start = slice_index a (length xs); stop = slice_index b (length xs)
      in take (stop - start) (drop start xs))"

definition py_slice_from :: "'a list \<Rightarrow> int \<Rightarrow> 'a list" where
  "py_slice_from xs a = drop (slice_index a (length xs)) xs"

definition py_slice_assign :: "'a list \<Rightarrow> int \<Rightarrow> int \<Rightarrow> 'a list \<Rightarrow> 'a list" where
  "py_slice_assign xs a b ys =
     (let start = slice_index a (length xs);
          stop = max start (slice_index b (length xs))
      in take start xs @ ys @ drop stop xs)"

section \<open>BytesBuffer\<close>

text \<open>
  \<^verbatim>\<open>class BytesBuffer(bytes, Buffer)\<close>: the immutable bytes of the object and the attribute
  \<^verbatim>\<open>_pos\<close>. \<^verbatim>\<open>bytes\<close> defines no \<^verbatim>\<open>__init__\<close>, so constructing one runs \<^verbatim>\<open>Buffer.__init__\<close>.
\<close>

record BytesBuffer =
  bb_data :: "byte list"
  bb_pos :: int

definition BytesBuffer_init :: "byte list \<Rightarrow> BytesBuffer" where
  "BytesBuffer_init data = \<lparr>bb_data = data, bb_pos = 0\<rparr>"

definition BytesBuffer_tell :: "BytesBuffer \<Rightarrow> int" where
  "BytesBuffer_tell b = bb_pos b"

definition BytesBuffer_size :: "BytesBuffer \<Rightarrow> int" where
  "BytesBuffer_size b = int (length (bb_data b))"

text \<open>
  \<^verbatim>\<open>peek\<close>: \<^verbatim>\<open>pos + count\<close> raises \<^verbatim>\<open>TypeError\<close> for a count that is not a number; the handler
  passes, and \<^verbatim>\<open>assert count is None\<close> decides between the whole tail and an
  \<^verbatim>\<open>AssertionError\<close>. The attribute \<^verbatim>\<open>_pos\<close> is never assigned.
\<close>

definition BytesBuffer_peek ::
  "pyval \<Rightarrow> int option \<Rightarrow> BytesBuffer \<Rightarrow> (exn + byte list) \<times> BytesBuffer" where
  "BytesBuffer_peek count offset b =
     (let pos = (case offset of None \<Rightarrow> bb_pos b | Some k \<Rightarrow> k);
          len = int (length (bb_data b))
      in case count of
           PyInt n \<Rightarrow>
             if pos + n < len then (Inr (py_slice (bb_data b) pos (pos + n)), b)
             else (Inr (py_slice (bb_data b) pos (pos + len)), b)
         | PyNone \<Rightarrow> (Inr (py_slice_from (bb_data b) pos), b)
         | PyStr _ \<Rightarrow> (Inl (AssertionError []), b))"

text \<open>
  \<^verbatim>\<open>read\<close>: with an integer count the cursor becomes \<^verbatim>\<open>_pos + count\<close> when that is below
  the length and the length otherwise, and the slice between the old and the new cursor
  is returned. Without a count the addition raises before anything is assigned.
\<close>

definition BytesBuffer_read ::
  "pyval \<Rightarrow> BytesBuffer \<Rightarrow> (exn + byte list) \<times> BytesBuffer" where
  "BytesBuffer_read count b =
     (let len = int (length (bb_data b)); old_pos = bb_pos b
      in case count of
           PyInt n \<Rightarrow>
             (let new_pos = (if bb_pos b + n < len then bb_pos b + n else len)
              in (Inr (py_slice (bb_data b) old_pos new_pos), b\<lparr>bb_pos := new_pos\<rparr>))
         | PyNone \<Rightarrow> (Inr (py_slice_from (bb_data b) old_pos), b\<lparr>bb_pos := len\<rparr>)
         | PyStr _ \<Rightarrow> (Inl (AssertionError []), b))"

text \<open>
  The three accepted branches of \<^verbatim>\<open>seek\<close> end in the same four lines: the assertion, the
  range test \<^verbatim>\<open>pos not in range(len(self) + 1)\<close> and the assignment. Assertions are taken
  as enabled (the interpreter's default).
\<close>

definition BytesBuffer_set_pos :: "int \<Rightarrow> BytesBuffer \<Rightarrow> (exn + unit) \<times> BytesBuffer" where
  "BytesBuffer_set_pos pos b =
     (if \<not> pos \<ge> 0 then (Inl (AssertionError ''Read position cannot be negative.''), b)
      else if \<not> (0 \<le> pos \<and> pos < int (length (bb_data b)) + 1)
        then (Inl (IndexError ''seek position out of range''), b)
      else (Inr (), b\<lparr>bb_pos := pos\<rparr>))"

definition BytesBuffer_seek ::
  "int \<Rightarrow> pyval \<Rightarrow> BytesBuffer \<Rightarrow> (exn + unit) \<times> BytesBuffer" where
  "BytesBuffer_seek pos whence b =
     (if whence = PyInt SEEK_SET then BytesBuffer_set_pos pos b
      else if whence = PyInt SEEK_CUR then BytesBuffer_set_pos (bb_pos b + pos) b
      else if whence = PyInt SEEK_END then BytesBuffer_set_pos (pos + int (length (bb_data b))) b
      else case whence of
             PyInt _ \<Rightarrow> (Inl (ValueError ''Invalid value for whence. Expected 0, 1, or 2''), b)
           | _ \<Rightarrow> (Inl (TypeError ''Invalid type for whence.''), b))"

definition BytesBuffer_write :: "byte list \<Rightarrow> BytesBuffer \<Rightarrow> (exn + unit) \<times> BytesBuffer" where
  "BytesBuffer_write s b =
     (Inl (IOError ''Cannot write to byte strings as they are immutable.''), b)"

section \<open>BytearrayBuffer\<close>

text \<open>
  \<^verbatim>\<open>class BytearrayBuffer(bytearray, Buffer)\<close>: mutable bytes and \<^verbatim>\<open>_pos\<close>. Its
  \<^verbatim>\<open>__init__\<close> fills the new bytearray from the argument and then runs \<^verbatim>\<open>Buffer.__init__\<close>.
\<close>

record BytearrayBuffer =
  ba_data :: "byte list"
  ba_pos :: int

definition BytearrayBuffer_init :: "byte list \<Rightarrow> BytearrayBuffer" where
  "BytearrayBuffer_init data = \<lparr>ba_data = data, ba_pos = 0\<rparr>"

definition BytearrayBuffer_tell :: "BytearrayBuffer \<Rightarrow> int" where
  "BytearrayBuffer_tell b = ba_pos b"


definition BytearrayBuffer_read ::
  "pyval \<Rightarrow> BytearrayBuffer \<Rightarrow> (exn + byte list) \<times> BytearrayBuffer" where
  "BytearrayBuffer_read count b =
     (let len = int (length (ba_data b)); old_pos = ba_pos b
      in case count of
           PyInt n \<Rightarrow>
             (let new_pos = (if ba_pos b + n < len then ba_pos b + n else len)
              in (Inr (py_slice (ba_data b) old_pos new_pos), b\<lparr>ba_pos := new_pos\<rparr>))
         | PyNone \<Rightarrow> (Inr (py_slice_from (ba_data b) old_pos), b\<lparr>ba_pos := len\<rparr>)
         | PyStr _ \<Rightarrow> (Inl (AssertionError []), b))"

definition BytearrayBuffer_seek ::
  "int \<Rightarrow> pyval \<Rightarrow> BytearrayBuffer \<Rightarrow> (exn + unit) \<times> BytearrayBuffer" where
  "BytearrayBuffer_seek pos whence b =
     (if whence = PyInt SEEK_SET then (Inr (), b\<lparr>ba_pos := pos\<rparr>)
      else if whence = PyInt SEEK_CUR then (Inr (), b\<lparr>ba_pos := ba_pos b + pos\<rparr>)
      else if whence = PyInt SEEK_END then (Inr (), b\<lparr>ba_pos := pos + int (length (ba_data b))\<rparr>)
      else case whence of
             PyInt _ \<Rightarrow> (Inl (ValueError ''Invalid value for whence. Expected 0, 1, or 2''), b)
           | _ \<Rightarrow> (Inl (TypeError ''Invalid type for whence.''), b))"

text \<open>
  \<^verbatim>\<open>write\<close>: the argument is already the bytes \<^verbatim>\<open>memoryview(s).tobytes()\<close>. The bytearray is
  extended by \<^verbatim>\<open>str_len - len(self) + self._pos\<close> zero bytes when it is too short, then the
  slice \<^verbatim>\<open>self[_pos:_pos + str_len]\<close> is assigned.
\<close>

definition BytearrayBuffer_write ::
  "byte list \<Rightarrow> BytearrayBuffer \<Rightarrow> (exn + unit) \<times> BytearrayBuffer" where
  "BytearrayBuffer_write s b =
     (let str_len = int (length s);
          len = int (length (ba_data b));
          extended = (if len < str_len + ba_pos b
                      then ba_data b @ replicate (nat (str_len - len + ba_pos b)) 0
                      else ba_data b);
          written = py_slice_assign extended (ba_pos b) (ba_pos b + str_len) s
      in (Inr (), \<lparr>ba_data = written, ba_pos = ba_pos b + str_len\<rparr>))"

text \<open>
  The reading of \<^verbatim>\<open>read(count)\<close> that the specification gives for this buffer, written
  from its words and kept apart from the code: the cursor is clamped to \<open>[0, length]\<close>, and
  the bytes from there up to \<open>min(start + count, length)\<close> are returned.
\<close>

definition read_clamped_spec :: "'a list \<Rightarrow> int \<Rightarrow> int \<Rightarrow> 'a list" where
  "read_clamped_spec content cursor count =
     (let L = int (length content);
          start = max 0 (min cursor L);
          stop = min (start + count) L
      in take (nat (stop - start)) (drop (nat start) content))"

section \<open>PeekableMmap\<close>

text \<open>
  \<^verbatim>\<open>class PeekableMmap(mmap)\<close> inherits \<^verbatim>\<open>tell\<close>, \<^verbatim>\<open>seek\<close>, \<^verbatim>\<open>read\<close> and \<^verbatim>\<open>close\<close> from the
  interpreter's \<^verbatim>\<open>mmap\<close> type, which is not part of the repository. The four inherited
  methods below follow the behaviour the Python library gives them: every method of a
  closed mapping raises \<^verbatim>\<open>ValueError\<close>; \<^verbatim>\<open>seek\<close> outside \<open>[0, size]\<close> raises \<^verbatim>\<open>ValueError\<close>
  and leaves the position alone; \<^verbatim>\<open>read(n)\<close> returns the remaining bytes when \<open>n\<close> is
  \<^verbatim>\<open>None\<close>, negative or too large; \<^verbatim>\<open>close\<close> raises \<^verbatim>\<open>BufferError\<close> while a buffer export
  (a \<^verbatim>\<open>memoryview\<close> of the mapping) is alive.
\<close>

datatype access = ACCESS_READ | ACCESS_WRITE

record PeekableMmap =
  mm_data :: "byte list"
  mm_pos :: nat
  mm_closed :: bool
  mm_exports :: nat
  mm_access :: access




definition mmap_close :: "PeekableMmap \<Rightarrow> (exn + unit) \<times> PeekableMmap" where
  "mmap_close m =
     (if mm_exports m > 0 then (Inl (BufferError ''cannot close exported pointers exist''), m)
      else (Inr (), m\<lparr>mm_closed := True\<rparr>))"



section \<open>Objects, the heap and the file system\<close>

text \<open>
  \<^verbatim>\<open>get_rawdata\<close> receives arbitrary objects and creates new ones. Mutable objects that
  can be reached from several places (a caller's bytearray, a buffer made from it, a
  mapping, an open file) live in a heap and are passed by reference; a new object gets the
  next free address. The file system is a map from paths to file contents.
\<close>

record pyfile =
  f_path :: string
  f_mode :: string
  f_closed :: bool

datatype heapobj =
    Bytearray "byte list"
  | BytearrayBufferObj BytearrayBuffer
  | MmapObj PeekableMmap
  | FileObj pyfile

text \<open>
  \<^verbatim>\<open>ObjOther t attrs\<close> is any object of another type: its truth value and the names of its
  attributes.
\<close>

datatype pyobj =
    ObjNone
  | ObjBytes "byte list"
  | ObjBytesBuffer BytesBuffer
  | ObjRef nat
  | ObjOther bool "string list"

record world =
  heap :: "heapobj list"
  files :: "string \<Rightarrow> byte list option"

definition deref :: "world \<Rightarrow> nat \<Rightarrow> heapobj option" where
  "deref w a = (if a < length (heap w) then Some (heap w ! a) else None)"

definition alloc :: "heapobj \<Rightarrow> world \<Rightarrow> (exn + pyobj) \<times> world" where
  "alloc obj w = (Inr (ObjRef (length (heap w))), w\<lparr>heap := heap w @ [obj]\<rparr>)"

text \<open>
  \<^verbatim>\<open>if rawdata:\<close> asks for the truth value: \<^verbatim>\<open>None\<close> is false, a sequence is true when it is
  not empty (a closed mapping raises when asked for its length), a file object is true.
  An address outside the heap is no Python value; it is taken as false.
\<close>

definition truthy :: "world \<Rightarrow> pyobj \<Rightarrow> exn + bool" where
  "truthy w obj =
     (case obj of
        ObjNone \<Rightarrow> Inr False
      | ObjBytes bs \<Rightarrow> Inr (bs \<noteq> [])
      | ObjBytesBuffer b \<Rightarrow> Inr (bb_data b \<noteq> [])
      | ObjOther t _ \<Rightarrow> Inr t
      | ObjRef a \<Rightarrow>
          (case deref w a of
             None \<Rightarrow> Inr False
           | Some (Bytearray bs) \<Rightarrow> Inr (bs \<noteq> [])
           | Some (BytearrayBufferObj b) \<Rightarrow> Inr (ba_data b \<noteq> [])
           | Some (MmapObj m) \<Rightarrow>
               if mm_closed m then Inl (ValueError ''mmap closed or invalid'')
               else Inr (mm_data m \<noteq> [])
           | Some (FileObj f) \<Rightarrow> Inr True))"

definition bytes_of :: "pyobj \<Rightarrow> byte list option" where
  "bytes_of obj =
     (case obj of ObjBytes bs \<Rightarrow> Some bs | ObjBytesBuffer b \<Rightarrow> Some (bb_data b) | _ \<Rightarrow> None)"

definition bytearray_of :: "world \<Rightarrow> pyobj \<Rightarrow> byte list option" where
  "bytearray_of w obj =
     (case obj of
        ObjRef a \<Rightarrow>
          (case deref w a of
             Some (Bytearray bs) \<Rightarrow> Some bs
           | Some (BytearrayBufferObj b) \<Rightarrow> Some (ba_data b)
           | _ \<Rightarrow> None)
      | _ \<Rightarrow> None)"

definition buffer_methods :: "string list" where
  "buffer_methods = [''read'', ''seek'', ''tell'', ''peek'', ''write'', ''size'']"

definition hasattr :: "world \<Rightarrow> pyobj \<Rightarrow> string \<Rightarrow> bool" where
  "hasattr w obj name =
     (case obj of
        ObjNone \<Rightarrow> False
      | ObjBytes _ \<Rightarrow> False
      | ObjBytesBuffer _ \<Rightarrow> name \<in> set buffer_methods
      | ObjOther _ attrs \<Rightarrow> name \<in> set attrs
      | ObjRef a \<Rightarrow>
          (case deref w a of
             None \<Rightarrow> False
           | Some (Bytearray _) \<Rightarrow> False
           | Some (BytearrayBufferObj _) \<Rightarrow> name \<in> set buffer_methods
           | Some (MmapObj _) \<Rightarrow> name \<in> set (''close'' # buffer_methods)
           | Some (FileObj _) \<Rightarrow> name \<in> set [''read'', ''seek'', ''tell'', ''write'', ''close'']))"

text \<open>
  The method call \<^verbatim>\<open>buf.write(s)\<close> on the BytearrayBuffer at an address of the heap: the
  object at that address is replaced by the buffer after the write. \<open>None\<close> when the
  address holds no BytearrayBuffer.
\<close>

definition BytearrayBuffer_write_at ::
  "nat \<Rightarrow> byte list \<Rightarrow> world \<Rightarrow> ((exn + unit) \<times> world) option" where
  "BytearrayBuffer_write_at a s w =
     (case deref w a of
        Some (BytearrayBufferObj b) \<Rightarrow>
          (case BytearrayBuffer_write s b of
             (r, b') \<Rightarrow> Some (r, w\<lparr>heap := (heap w)[a := BytearrayBufferObj b']\<rparr>))
      | _ \<Rightarrow> None)"

section \<open>get_rawdata\<close>

record kwargs =
  kw_filepath :: "string option"
  kw_rawdata :: pyobj
  kw_writable :: bool

text \<open>
  \<^verbatim>\<open>kwargs.get('filepath')\<close> and \<^verbatim>\<open>kwargs.get('rawdata')\<close> are \<^verbatim>\<open>None\<close> for a missing keyword;
  \<open>kw_writable\<close> is the truth value of \<^verbatim>\<open>kwargs.get('writable', True)\<close>.

  The branch that opens a file: mode \<^verbatim>\<open>'rb'\<close> fails on a missing file, \<^verbatim>\<open>'r+b'\<close> is chosen
  for an existing one, \<^verbatim>\<open>'w+b'\<close> creates an empty one. Mapping an empty file raises
  \<^verbatim>\<open>ValueError\<close>, which the source catches to return the open file object instead;
  otherwise the file object is closed and the mapping is returned.
\<close>

definition mmap_or_file ::
  "string \<Rightarrow> string \<Rightarrow> access \<Rightarrow> byte list \<Rightarrow> world \<Rightarrow> (exn + pyobj) \<times> world" where
  "mmap_or_file path open_mode acc data w =
     (if data = []
      then alloc (FileObj \<lparr>f_path = path, f_mode = open_mode, f_closed = False\<rparr>) w
      else alloc (MmapObj \<lparr>mm_data = data, mm_pos = 0, mm_closed = False,
                           mm_exports = 0, mm_access = acc\<rparr>) w)"

definition open_rawdata :: "string option \<Rightarrow> bool \<Rightarrow> world \<Rightarrow> (exn + pyobj) \<times> world" where
  "open_rawdata filepath writable w =
     (case filepath of
        None \<Rightarrow> (Inl (AttributeError ''NoneType''), w)
      | Some path \<Rightarrow>
          if \<not> writable then
            (case files w path of
               None \<Rightarrow> (Inl (FileNotFoundError path), w)
             | Some data \<Rightarrow> mmap_or_file path ''rb'' ACCESS_READ data w)
          else
            (case files w path of
               Some data \<Rightarrow> mmap_or_file path ''r+b'' ACCESS_WRITE data w
             | None \<Rightarrow>
                 mmap_or_file path ''w+b'' ACCESS_WRITE []
                   (w\<lparr>files := (files w)(path \<mapsto> [])\<rparr>)))"

text \<open>
  \<^verbatim>\<open>is_path_empty\<close> comes from \<^verbatim>\<open>supyr_struct.util\<close>, which is not among the sources: it is
  a parameter. \<^verbatim>\<open>BytesBuffer(rawdata)\<close> builds a new bytes object with the same bytes, and
  \<^verbatim>\<open>BytearrayBuffer(rawdata)\<close> a new bytearray filled from the argument
  (\<^verbatim>\<open>bytearray.__init__(self, *args)\<close>).
\<close>

definition get_rawdata ::
  "(string option \<Rightarrow> bool) \<Rightarrow> kwargs \<Rightarrow> world \<Rightarrow> (exn + pyobj) \<times> world" where
  "get_rawdata is_path_empty kw w =
     (let filepath = kw_filepath kw; rawdata = kw_rawdata kw; writable = kw_writable kw
      in if \<not> is_path_empty filepath then
           (case truthy w rawdata of
              Inl e \<Rightarrow> (Inl e, w)
            | Inr t \<Rightarrow>
                if t then (Inl (TypeError ''Provide either rawdata or filepath, not both.''), w)
                else open_rawdata filepath writable w)
         else
           (case truthy w rawdata of
              Inl e \<Rightarrow> (Inl e, w)
            | Inr t \<Rightarrow>
                if \<not> t then (Inr ObjNone, w)
                else
                  (case bytes_of rawdata of
                     Some bs \<Rightarrow> (Inr (ObjBytesBuffer (BytesBuffer_init bs)), w)
                   | None \<Rightarrow>
                       (case bytearray_of w rawdata of
                          Some bs \<Rightarrow> alloc (BytearrayBufferObj (BytearrayBuffer_init bs)) w
                        | None \<Rightarrow>
                            if \<not> (hasattr w rawdata ''read'' \<and> hasattr w rawdata ''seek'')
                            then (Inl (TypeError ''If rawdata is provided it must have read and seek attributes''), w)
                            else (Inr rawdata, w)))))"

section \<open>get_rawdata_context\<close>

text \<open>
  Calling \<^verbatim>\<open>close\<close> on an object: \<^verbatim>\<open>None\<close>, bytes and bytearrays have no such attribute and
  the call raises \<^verbatim>\<open>AttributeError\<close>; a mapping and a file object are closed by their own
  method. What the \<^verbatim>\<open>close\<close> of an object of another type does is unknown: it is taken to
  return and to leave the heap alone.
\<close>

definition obj_close :: "pyobj \<Rightarrow> world \<Rightarrow> (exn + unit) \<times> world" where
  "obj_close obj w =
     (case obj of
        ObjRef a \<Rightarrow>
          (case deref w a of
             Some (MmapObj m) \<Rightarrow>
               (case mmap_close m of
                  (Inl e, m') \<Rightarrow> (Inl e, w\<lparr>heap := (heap w)[a := MmapObj m']\<rparr>)
                | (Inr _, m') \<Rightarrow> (Inr (), w\<lparr>heap := (heap w)[a := MmapObj m']\<rparr>))
           | Some (FileObj f) \<Rightarrow> (Inr (), w\<lparr>heap := (heap w)[a := FileObj (f\<lparr>f_closed := True\<rparr>)]\<rparr>)
           | _ \<Rightarrow> (Inl (AttributeError ''close''), w))
      | ObjOther _ attrs \<Rightarrow>
          if ''close'' \<in> set attrs then (Inr (), w) else (Inl (AttributeError ''close''), w)
      | _ \<Rightarrow> (Inl (AttributeError ''close''), w))"

definition is_closed :: "world \<Rightarrow> pyobj \<Rightarrow> bool" where
  "is_closed w obj =
     (case obj of
        ObjRef a \<Rightarrow>
          (case deref w a of
             Some (MmapObj m) \<Rightarrow> mm_closed m
           | Some (FileObj f) \<Rightarrow> f_closed f
           | _ \<Rightarrow> False)
      | _ \<Rightarrow> False)"

record get_rawdata_context =
  ctx_rawdata :: pyobj
  ctx_close_rawdata :: bool

definition context_init ::
  "(string option \<Rightarrow> bool) \<Rightarrow> kwargs \<Rightarrow> world \<Rightarrow> (exn + get_rawdata_context) \<times> world" where
  "context_init is_path_empty kw w =
     (let close_rawdata = (kw_rawdata kw = ObjNone)
      in case get_rawdata is_path_empty kw w of
           (Inl e, w') \<Rightarrow> (Inl e, w')
         | (Inr rawdata, w') \<Rightarrow>
             (Inr \<lparr>ctx_rawdata = rawdata, ctx_close_rawdata = close_rawdata\<rparr>, w'))"

definition context_enter :: "get_rawdata_context \<Rightarrow> pyobj" where
  "context_enter ctx = ctx_rawdata ctx"

text \<open>
  \<^verbatim>\<open>__exit__\<close>: the call of \<^verbatim>\<open>close\<close> stands in a \<^verbatim>\<open>try\<close> whose only handler is
  \<^verbatim>\<open>except AttributeError: return\<close>.
\<close>

definition context_exit :: "get_rawdata_context \<Rightarrow> world \<Rightarrow> (exn + unit) \<times> world" where
  "context_exit ctx w =
     (if ctx_close_rawdata ctx then
        (case obj_close (ctx_rawdata ctx) w of
           (Inl (AttributeError _), w') \<Rightarrow> (Inr (), w')
         | (Inl e, w') \<Rightarrow> (Inl e, w')
         | (Inr _, w') \<Rightarrow> (Inr (), w'))
      else (Inr (), w))"

section \<open>Facts about slices\<close>

lemma take_min_length: "take (min n (length ys)) ys = take n ys"
  by (cases "n \<le> length ys") (simp_all add: min_def)

lemma slice_index_le: "slice_index i n \<le> n"
  by (auto simp: slice_index_def max_def)

lemma slice_index_step:
  assumes "0 \<le> k"
  shows "slice_index (p + k) n \<le> slice_index p n + nat k"
proof (cases "p < 0")
  case False
  then show ?thesis using assms by (simp add: slice_index_def)
next
  case True
  show ?thesis
  proof (cases "p + k < 0")
    case True
    then show ?thesis using \<open>p < 0\<close> assms by (simp add: slice_index_def)
  next
    case False
    then have "nat (p + k) \<le> nat k" using \<open>p < 0\<close> by simp
    then show ?thesis using \<open>p < 0\<close> False by (simp add: slice_index_def)
  qed
qed

lemma length_py_slice_count:
  "0 \<le> n \<Longrightarrow> length (py_slice xs p (p + n)) \<le> nat n"
  using slice_index_step [of n p "length xs"]
  by (simp add: py_slice_def Let_def)

lemma length_py_slice_tail:
  assumes "int (length xs) \<le> p + n"
  shows "length (py_slice xs p (int (length xs))) \<le> nat n"
proof (cases "p < 0")
  case True
  then have "length xs \<le> nat n" using assms by simp
  then show ?thesis by (simp add: py_slice_def Let_def)
next
  case False
  then have "length xs - min (nat p) (length xs) \<le> nat n" using assms by (simp add: min_def) linarith
  then show ?thesis using False by (simp add: py_slice_def Let_def slice_index_def)
qed

lemma slice_index_nonneg: "0 \<le> i \<Longrightarrow> slice_index i n = min (nat i) n"
  by (simp add: slice_index_def)

lemma py_slice_take_drop:
  assumes "0 \<le> p" "0 \<le> n"
  shows "py_slice xs p (min (p + n) (int (length xs))) = take (nat n) (drop (nat p) xs)"
proof (cases "nat p \<le> length xs")
  case True
  have stop: "slice_index (min (p + n) (int (length xs))) (length xs)
                = nat (min (p + n) (int (length xs)))"
    using assms by (auto simp: slice_index_def min_def)
  have start: "slice_index p (length xs) = nat p"
    using assms True by (simp add: slice_index_def min_def)
  have "nat (min (p + n) (int (length xs))) - nat p = min (nat n) (length (drop (nat p) xs))"
    using assms True by (simp add: min_def) linarith
  then show ?thesis
    by (simp only: py_slice_def Let_def stop start take_min_length)
next
  case False
  then show ?thesis
    using assms by (simp add: py_slice_def Let_def slice_index_def min_def)
qed

lemma py_slice_from_drop: "0 \<le> a \<Longrightarrow> py_slice_from xs a = drop (nat a) xs"
  by (auto simp: py_slice_from_def slice_index_nonneg min_def)

lemma py_slice_from_end:
  assumes "0 \<le> n" "- int (length xs) \<le> p" "p + n < 0"
  shows "py_slice xs p (p + n) = take (nat n) (drop (nat (int (length xs) + p)) xs)"
proof -
  have start: "slice_index p (length xs) = nat (int (length xs) + p)"
    using assms by (simp add: slice_index_def max_def add.commute)
  have stop: "slice_index (p + n) (length xs) = nat (int (length xs) + p) + nat n"
    using assms by (simp add: slice_index_def max_def)
  show ?thesis
    by (simp add: py_slice_def Let_def start stop)
qed

section \<open>Properties of the constructors and of seek\<close>

text \<open>
  C10. A freshly constructed BytesBuffer and a freshly constructed BytearrayBuffer have the
  cursor at 0: \<^verbatim>\<open>tell()\<close> returns 0 before any other call.
\<close>

theorem fresh_buffers_tell_zero:
  "BytesBuffer_tell (BytesBuffer_init data) = 0 \<and>
   BytearrayBuffer_tell (BytearrayBuffer_init data) = 0"
  by (simp add: BytesBuffer_tell_def BytesBuffer_init_def
      BytearrayBuffer_tell_def BytearrayBuffer_init_def)

text \<open>
  C6. On a BytearrayBuffer, \<^verbatim>\<open>seek(pos, whence)\<close> with whence \<^verbatim>\<open>SEEK_SET\<close>, \<^verbatim>\<open>SEEK_CUR\<close> or
  \<^verbatim>\<open>SEEK_END\<close> returns normally for every integer \<open>pos\<close> and sets the cursor to \<open>pos\<close>,
  to cursor + \<open>pos\<close>, or to length + \<open>pos\<close>, whatever the sign or size of the result; the
  bytes are untouched.
\<close>

theorem BytearrayBuffer_seek_unvalidated:
  "BytearrayBuffer_seek pos (PyInt SEEK_SET) b = (Inr (), b\<lparr>ba_pos := pos\<rparr>) \<and>
   BytearrayBuffer_seek pos (PyInt SEEK_CUR) b = (Inr (), b\<lparr>ba_pos := ba_pos b + pos\<rparr>) \<and>
   BytearrayBuffer_seek pos (PyInt SEEK_END) b =
     (Inr (), b\<lparr>ba_pos := int (length (ba_data b)) + pos\<rparr>)"
  by (simp add: BytearrayBuffer_seek_def add.commute)

text \<open>
  C2. On a BytesBuffer over \<open>L\<close> bytes, \<^verbatim>\<open>seek(pos, whence)\<close> has the target \<open>pos\<close>
  (\<^verbatim>\<open>SEEK_SET\<close>), cursor + \<open>pos\<close> (\<^verbatim>\<open>SEEK_CUR\<close>) or \<open>L\<close> + \<open>pos\<close> (\<^verbatim>\<open>SEEK_END\<close>). A target
  below 0 or above \<open>L\<close> makes the call raise and leaves the buffer, cursor included, as it
  was; any other target becomes the cursor. The out-of-range failure is an
  \<^verbatim>\<open>AssertionError\<close> for a negative target and an \<^verbatim>\<open>IndexError\<close> for one past the end.
  On five bytes, \<^verbatim>\<open>seek(-2, SEEK_END)\<close> sets the cursor to 3 and \<^verbatim>\<open>seek(-10, SEEK_END)\<close> fails.
\<close>

theorem BytesBuffer_seek_checked:
  "\<forall>(whence, target) \<in> set [(SEEK_SET, pos), (SEEK_CUR, bb_pos b + pos),
                              (SEEK_END, int (length (bb_data b)) + pos)].
     (target < 0 \<longrightarrow>
        BytesBuffer_seek pos (PyInt whence) b =
          (Inl (AssertionError ''Read position cannot be negative.''), b)) \<and>
     (int (length (bb_data b)) < target \<longrightarrow>
        BytesBuffer_seek pos (PyInt whence) b =
          (Inl (IndexError ''seek position out of range''), b)) \<and>
     (0 \<le> target \<and> target \<le> int (length (bb_data b)) \<longrightarrow>
        BytesBuffer_seek pos (PyInt whence) b = (Inr (), b\<lparr>bb_pos := target\<rparr>))"
  by (simp add: BytesBuffer_seek_def BytesBuffer_set_pos_def add.commute)

theorem BytesBuffer_seek_checked_witness:
  "BytesBuffer_seek (- 2) (PyInt SEEK_END) \<lparr>bb_data = [1, 2, 3, 4, 5], bb_pos = 0\<rparr> =
     (Inr (), \<lparr>bb_data = [1, 2, 3, 4, 5], bb_pos = 3\<rparr>) \<and>
   BytesBuffer_seek (- 10) (PyInt SEEK_END) \<lparr>bb_data = [1, 2, 3, 4, 5], bb_pos = 4\<rparr> =
     (Inl (AssertionError ''Read position cannot be negative.''),
      \<lparr>bb_data = [1, 2, 3, 4, 5], bb_pos = 4\<rparr>) \<and>
   BytesBuffer_seek 2 (PyInt SEEK_CUR) \<lparr>bb_data = [1, 2, 3, 4, 5], bb_pos = 4\<rparr> =
     (Inl (IndexError ''seek position out of range''),
      \<lparr>bb_data = [1, 2, 3, 4, 5], bb_pos = 4\<rparr>)"
  using BytesBuffer_seek_checked [of "- 2" "\<lparr>bb_data = [1, 2, 3, 4, 5], bb_pos = 0\<rparr>"]
    BytesBuffer_seek_checked [of "- 10" "\<lparr>bb_data = [1, 2, 3, 4, 5], bb_pos = 4\<rparr>"]
    BytesBuffer_seek_checked [of 2 "\<lparr>bb_data = [1, 2, 3, 4, 5], bb_pos = 4\<rparr>"]
  by simp

section \<open>Reading from a BytesBuffer\<close>

text \<open>
  C4. On a BytesBuffer over content \<open>C\<close> of length \<open>L\<close> with cursor \<open>pos\<close>, \<^verbatim>\<open>read(n)\<close>
  returns the slice \<^verbatim>\<open>C[pos : min(pos+n, L)]\<close> and leaves \<^verbatim>\<open>tell()\<close> at \<open>min(pos+n, L)\<close>. For
  a cursor and a count that are not negative this slice is the run of at most \<open>n\<close> bytes
  that starts at the cursor; when \<open>pos + n\<close> reaches the end it is the remaining tail, and
  no exception is raised. \<^verbatim>\<open>read()\<close> without a count returns \<^verbatim>\<open>C[pos:]\<close>, all bytes from the
  cursor on, and sets the cursor to \<open>L\<close>.
\<close>

theorem BytesBuffer_read_slice:
  "BytesBuffer_read (PyInt n) b =
     (Inr (py_slice (bb_data b) (bb_pos b) (min (bb_pos b + n) (int (length (bb_data b))))),
      b\<lparr>bb_pos := min (bb_pos b + n) (int (length (bb_data b)))\<rparr>) \<and>
   BytesBuffer_tell (snd (BytesBuffer_read (PyInt n) b)) =
     min (bb_pos b + n) (int (length (bb_data b))) \<and>
   (0 \<le> bb_pos b \<and> 0 \<le> n \<longrightarrow>
      fst (BytesBuffer_read (PyInt n) b) = Inr (take (nat n) (drop (nat (bb_pos b)) (bb_data b)))) \<and>
   (0 \<le> bb_pos b \<and> int (length (bb_data b)) \<le> bb_pos b + n \<longrightarrow>
      fst (BytesBuffer_read (PyInt n) b) = Inr (drop (nat (bb_pos b)) (bb_data b))) \<and>
   BytesBuffer_read PyNone b =
     (Inr (py_slice_from (bb_data b) (bb_pos b)), b\<lparr>bb_pos := int (length (bb_data b))\<rparr>) \<and>
   (0 \<le> bb_pos b \<longrightarrow>
      fst (BytesBuffer_read PyNone b) = Inr (drop (nat (bb_pos b)) (bb_data b)))"
proof -
  let ?L = "int (length (bb_data b))"
  have new_pos: "(if bb_pos b + n < ?L then bb_pos b + n else ?L) = min (bb_pos b + n) ?L"
    by (simp add: min_def)
  have rd: "BytesBuffer_read (PyInt n) b =
     (Inr (py_slice (bb_data b) (bb_pos b) (min (bb_pos b + n) ?L)),
      b\<lparr>bb_pos := min (bb_pos b + n) ?L\<rparr>)"
    by (simp add: BytesBuffer_read_def Let_def new_pos)
  have tl: "BytesBuffer_tell (snd (BytesBuffer_read (PyInt n) b)) = min (bb_pos b + n) ?L"
    by (simp add: rd BytesBuffer_tell_def)
  have upto: "fst (BytesBuffer_read (PyInt n) b) = Inr (take (nat n) (drop (nat (bb_pos b)) (bb_data b)))"
    if "0 \<le> bb_pos b \<and> 0 \<le> n"
    using that by (simp add: rd py_slice_take_drop)
  have tail: "fst (BytesBuffer_read (PyInt n) b) = Inr (drop (nat (bb_pos b)) (bb_data b))"
    if h: "0 \<le> bb_pos b \<and> ?L \<le> bb_pos b + n"
  proof -
    have "0 \<le> n \<or> ?L \<le> bb_pos b" using h by linarith
    then show ?thesis
    proof
      assume "0 \<le> n"
      then have "length (drop (nat (bb_pos b)) (bb_data b)) \<le> nat n" using h by simp linarith
      then show ?thesis using h \<open>0 \<le> n\<close> by (simp add: upto)
    next
      assume "?L \<le> bb_pos b"
      then have "drop (nat (bb_pos b)) (bb_data b) = []" by simp
      moreover have "slice_index (bb_pos b) (length (bb_data b)) = length (bb_data b)"
        using \<open>?L \<le> bb_pos b\<close> h by (auto simp: slice_index_def min_def)
      ultimately show ?thesis
        by (simp add: rd py_slice_def Let_def)
    qed
  qed
  have none: "BytesBuffer_read PyNone b =
     (Inr (py_slice_from (bb_data b) (bb_pos b)), b\<lparr>bb_pos := ?L\<rparr>)"
    by (simp add: BytesBuffer_read_def Let_def)
  have none_drop: "fst (BytesBuffer_read PyNone b) = Inr (drop (nat (bb_pos b)) (bb_data b))"
    if "0 \<le> bb_pos b"
    using that by (simp add: none py_slice_from_drop)
  show ?thesis
    using rd tl upto tail none none_drop by blast
qed

theorem BytesBuffer_read_slice_witness:
  "fst (BytesBuffer_read (PyInt 2) \<lparr>bb_data = [1, 2, 3, 4, 5], bb_pos = 1\<rparr>) = Inr [2, 3] \<and>
   BytesBuffer_tell (snd (BytesBuffer_read (PyInt 2) \<lparr>bb_data = [1, 2, 3, 4, 5], bb_pos = 1\<rparr>)) = 3 \<and>
   fst (BytesBuffer_read (PyInt 10) \<lparr>bb_data = [1, 2, 3, 4, 5], bb_pos = 1\<rparr>) = Inr [2, 3, 4, 5] \<and>
   BytesBuffer_tell (snd (BytesBuffer_read (PyInt 10) \<lparr>bb_data = [1, 2, 3, 4, 5], bb_pos = 1\<rparr>)) = 5 \<and>
   fst (BytesBuffer_read PyNone \<lparr>bb_data = [1, 2, 3, 4, 5], bb_pos = 1\<rparr>) = Inr [2, 3, 4, 5] \<and>
   BytesBuffer_tell (snd (BytesBuffer_read PyNone \<lparr>bb_data = [1, 2, 3, 4, 5], bb_pos = 1\<rparr>)) = 5"
  using BytesBuffer_read_slice [of 2 "\<lparr>bb_data = [1, 2, 3, 4, 5], bb_pos = 1\<rparr>"]
    BytesBuffer_read_slice [of 10 "\<lparr>bb_data = [1, 2, 3, 4, 5], bb_pos = 1\<rparr>"]
  by (simp add: BytesBuffer_tell_def py_slice_def slice_index_def)

section \<open>peek and the cursor\<close>






section \<open>Writing to a BytearrayBuffer\<close>




text \<open>The example of C3 for any two bytes in the buffer.\<close>

lemma BytearrayBuffer_write_example:
  "BytearrayBuffer_write [1, 2] \<lparr>ba_data = [x, y], ba_pos = 5\<rparr> =
     (Inr (), \<lparr>ba_data = [x, y, 0, 0, 0, 1, 2], ba_pos = 7\<rparr>)"
  by code_simp


section \<open>The cursor of a BytesBuffer\<close>

text \<open>
  C5. The cursor of a BytesBuffer over \<open>L\<close> bytes is meant to stay in \<open>[0, L]\<close>, and
  \<^verbatim>\<open>seek\<close> asserts that the read position cannot be negative. \<^verbatim>\<open>read\<close> with a negative
  count breaks it: on \<^verbatim>\<open>b"abcde"\<close> at cursor 0, \<^verbatim>\<open>read(-1)\<close> returns \<^verbatim>\<open>b"abcd"\<close> and leaves
  the cursor at \<open>-1\<close>.
\<close>

theorem BytesBuffer_read_negative_count:
  "BytesBuffer_read (PyInt (- 1)) \<lparr>bb_data = [97, 98, 99, 100, 101], bb_pos = 0\<rparr> =
     (Inr [97, 98, 99, 100], \<lparr>bb_data = [97, 98, 99, 100, 101], bb_pos = - 1\<rparr>)"
  by code_simp

text \<open>
  Every other call keeps a cursor that is in \<open>[0, L]\<close> there: a read with a count that is
  not negative or with no count, any seek, any peek and any write.
\<close>

lemma BytesBuffer_cursor_in_range:
  assumes "0 \<le> bb_pos b \<and> bb_pos b \<le> int (length (bb_data b))"
  shows "0 \<le> n \<longrightarrow> 0 \<le> bb_pos (snd (BytesBuffer_read (PyInt n) b)) \<and>
           bb_pos (snd (BytesBuffer_read (PyInt n) b)) \<le> int (length (bb_data (snd (BytesBuffer_read (PyInt n) b))))"
    and "0 \<le> bb_pos (snd (BytesBuffer_read PyNone b)) \<and>
           bb_pos (snd (BytesBuffer_read PyNone b)) \<le> int (length (bb_data (snd (BytesBuffer_read PyNone b))))"
    and "0 \<le> bb_pos (snd (BytesBuffer_seek pos whence b)) \<and>
           bb_pos (snd (BytesBuffer_seek pos whence b)) \<le> int (length (bb_data (snd (BytesBuffer_seek pos whence b))))"
    and "snd (BytesBuffer_peek count offset b) = b"
    and "snd (BytesBuffer_write s b) = b"
  using assms
  by (auto simp: BytesBuffer_read_def BytesBuffer_seek_def BytesBuffer_set_pos_def
      BytesBuffer_peek_def BytesBuffer_write_def Let_def split: pyval.splits)

section \<open>Reading from a BytearrayBuffer\<close>

text \<open>
  C7, as amended. On a BytearrayBuffer with any cursor, negative or past the end,
  \<^verbatim>\<open>read(count)\<close> with an integer count returns normally, and what it returns is the slice
  \<^verbatim>\<open>content[cursor : min(cursor + count, length)]\<close>. For a count that is not negative it
  returns at most \<open>count\<close> bytes; a cursor at or past the end gives no bytes; for a cursor
  and a count that are not negative the bytes are those of a read with the cursor clamped
  to \<open>[0, length]\<close>. A negative cursor is not clamped to 0 but counted from the end, as a
  negative slice index is: for \<open>-length \<le> cursor\<close>, \<open>cursor + count < 0\<close> and a count that
  is not negative, the read returns the \<open>count\<close> bytes that start at index
  \<open>length + cursor\<close>.
\<close>

theorem BytearrayBuffer_read_total:
  "\<exists>bs. fst (BytearrayBuffer_read (PyInt n) b) = Inr bs \<and>
     bs = py_slice (ba_data b) (ba_pos b) (min (ba_pos b + n) (int (length (ba_data b)))) \<and>
     (0 \<le> n \<longrightarrow> length bs \<le> nat n) \<and>
     (int (length (ba_data b)) \<le> ba_pos b \<longrightarrow> bs = []) \<and>
     (0 \<le> n \<and> 0 \<le> ba_pos b \<longrightarrow> bs = read_clamped_spec (ba_data b) (ba_pos b) n) \<and>
     (0 \<le> n \<and> - int (length (ba_data b)) \<le> ba_pos b \<and> ba_pos b + n < 0 \<longrightarrow>
        bs = take (nat n) (drop (nat (int (length (ba_data b)) + ba_pos b)) (ba_data b)))"
proof -
  let ?L = "int (length (ba_data b))"
  let ?bs = "py_slice (ba_data b) (ba_pos b) (min (ba_pos b + n) ?L)"
  have new_pos: "(if ba_pos b + n < ?L then ba_pos b + n else ?L) = min (ba_pos b + n) ?L"
    by (simp add: min_def)
  have rd: "fst (BytearrayBuffer_read (PyInt n) b) = Inr ?bs"
    by (simp add: BytearrayBuffer_read_def Let_def new_pos)
  have short: "length ?bs \<le> nat n" if "0 \<le> n"
  proof (cases "ba_pos b + n < ?L")
    case True
    then show ?thesis using that length_py_slice_count [of n "ba_data b" "ba_pos b"]
      by (simp add: min_def)
  next
    case False
    then show ?thesis using length_py_slice_tail [of "ba_data b" "ba_pos b" n]
      by (simp add: min_def)
  qed
  have past: "?bs = []" if "?L \<le> ba_pos b"
  proof -
    have "slice_index (ba_pos b) (length (ba_data b)) = length (ba_data b)"
      using that by (auto simp: slice_index_def min_def)
    then show ?thesis by (simp add: py_slice_def Let_def)
  qed
  have clamped: "?bs = read_clamped_spec (ba_data b) (ba_pos b) n" if h: "0 \<le> n \<and> 0 \<le> ba_pos b"
  proof (cases "ba_pos b \<le> ?L")
    case True
    have "nat (min (ba_pos b + n) ?L - ba_pos b) = min (nat n) (length (drop (nat (ba_pos b)) (ba_data b)))"
      using h True by (simp add: min_def) linarith
    then have "read_clamped_spec (ba_data b) (ba_pos b) n = take (nat n) (drop (nat (ba_pos b)) (ba_data b))"
      using h True by (simp add: read_clamped_spec_def Let_def max_def min_absorb1 take_min_length
          del: length_drop)
    then show ?thesis using h by (simp add: py_slice_take_drop)
  next
    case False
    then have "?bs = []" using past by simp
    moreover have "read_clamped_spec (ba_data b) (ba_pos b) n = []"
      using False h by (simp add: read_clamped_spec_def Let_def max_def min_def)
    ultimately show ?thesis by simp
  qed
  have from_end: "?bs = take (nat n) (drop (nat (?L + ba_pos b)) (ba_data b))"
    if h: "0 \<le> n \<and> - ?L \<le> ba_pos b \<and> ba_pos b + n < 0"
  proof -
    have "min (ba_pos b + n) ?L = ba_pos b + n" using h by simp
    then show ?thesis using h py_slice_from_end [of n "ba_data b" "ba_pos b"] by simp
  qed
  show ?thesis using rd short past clamped from_end by blast
qed

theorem BytearrayBuffer_read_total_witness:
  "fst (BytearrayBuffer_read (PyInt 3) \<lparr>ba_data = [10, 20, 30, 40, 50], ba_pos = 7\<rparr>) = Inr [] \<and>
   fst (BytearrayBuffer_read (PyInt 3) \<lparr>ba_data = [10, 20, 30, 40, 50], ba_pos = 1\<rparr>)
     = Inr [20, 30, 40] \<and>
   read_clamped_spec [10, 20, 30, 40, 50 :: byte] 1 3 = [20, 30, 40] \<and>
   fst (BytearrayBuffer_read (PyInt 2) \<lparr>ba_data = [10, 20, 30, 40, 50], ba_pos = - 3\<rparr>)
     = Inr [30, 40] \<and>
   take (nat 2) (drop (nat (int (length [10, 20, 30, 40, 50 :: byte]) + - 3))
     [10, 20, 30, 40, 50 :: byte]) = [30, 40]"
proof -
  have e: "fst (BytearrayBuffer_read (PyInt 3) \<lparr>ba_data = [10, 20, 30, 40, 50], ba_pos = 7\<rparr>) = Inr []"
    "fst (BytearrayBuffer_read (PyInt 3) \<lparr>ba_data = [10, 20, 30, 40, 50], ba_pos = 1\<rparr>)
       = Inr [20, 30, 40]"
    "fst (BytearrayBuffer_read (PyInt 2) \<lparr>ba_data = [10, 20, 30, 40, 50], ba_pos = - 3\<rparr>)
       = Inr [30, 40]"
    by code_simp+
  from BytearrayBuffer_read_total [of 3 "\<lparr>ba_data = [10, 20, 30, 40, 50], ba_pos = 1\<rparr>"]
    BytearrayBuffer_read_total [of 2 "\<lparr>ba_data = [10, 20, 30, 40, 50], ba_pos = - 3\<rparr>"] e
  show ?thesis by auto
qed

text \<open>
  C7 as stated has every out-of-range cursor clamped. A negative cursor is not: the slice
  counts it from the end. On five bytes with cursor \<open>-2\<close>, \<^verbatim>\<open>read(1)\<close> returns the fourth
  byte, where a cursor clamped to 0 would give the first.
\<close>

theorem BytearrayBuffer_read_negative_cursor:
  "fst (BytearrayBuffer_read (PyInt 1) \<lparr>ba_data = [10, 20, 30, 40, 50], ba_pos = - 2\<rparr>) = Inr [40] \<and>
   read_clamped_spec [10, 20, 30, 40, 50 :: byte] (- 2) 1 = [10] \<and>
   fst (BytearrayBuffer_read (PyInt 1) \<lparr>ba_data = [10, 20, 30, 40, 50], ba_pos = - 2\<rparr>)
     \<noteq> Inr (read_clamped_spec [10, 20, 30, 40, 50] (- 2) 1)"
  by code_simp

section \<open>The resolver\<close>

text \<open>
  C8, as amended. \<^verbatim>\<open>get_rawdata\<close> called with a path that is not empty and rawdata that is
  true raises the \<^verbatim>\<open>TypeError\<close> "Provide either rawdata or filepath, not both.". With an
  empty path: for bytes that are not empty it returns a BytesBuffer over exactly those bytes
  with cursor 0; for a bytearray that is not empty it returns a new BytearrayBuffer object,
  at a fresh address, that holds a copy of the bytes with cursor 0, and the caller's
  bytearray stays as it was; for a true object of any other type it returns the object
  itself when it has the attributes \<^verbatim>\<open>read\<close> and \<^verbatim>\<open>seek\<close> and raises the other \<^verbatim>\<open>TypeError\<close>
  when it lacks one; for rawdata that is \<^verbatim>\<open>None\<close> or empty it returns \<^verbatim>\<open>None\<close>. In all of
  these but the bytearray case the heap and the files are untouched.
\<close>

theorem get_rawdata_cases:
  "(\<not> ipe fp \<and> truthy w rd = Inr True \<longrightarrow>
      get_rawdata ipe \<lparr>kw_filepath = fp, kw_rawdata = rd, kw_writable = wr\<rparr> w =
        (Inl (TypeError ''Provide either rawdata or filepath, not both.''), w)) \<and>
   (ipe fp \<and> bs \<noteq> [] \<longrightarrow>
      get_rawdata ipe \<lparr>kw_filepath = fp, kw_rawdata = ObjBytes bs, kw_writable = wr\<rparr> w =
        (Inr (ObjBytesBuffer \<lparr>bb_data = bs, bb_pos = 0\<rparr>), w)) \<and>
   (ipe fp \<and> deref w a = Some (Bytearray bs) \<and> bs \<noteq> [] \<longrightarrow>
      get_rawdata ipe \<lparr>kw_filepath = fp, kw_rawdata = ObjRef a, kw_writable = wr\<rparr> w =
        (Inr (ObjRef (length (heap w))),
         w\<lparr>heap := heap w @ [BytearrayBufferObj \<lparr>ba_data = bs, ba_pos = 0\<rparr>]\<rparr>) \<and>
      a \<noteq> length (heap w)) \<and>
   (ipe fp \<and> truthy w rd = Inr True \<and> bytes_of rd = None \<and> bytearray_of w rd = None \<longrightarrow>
      get_rawdata ipe \<lparr>kw_filepath = fp, kw_rawdata = rd, kw_writable = wr\<rparr> w =
        (if hasattr w rd ''read'' \<and> hasattr w rd ''seek'' then (Inr rd, w)
         else (Inl (TypeError ''If rawdata is provided it must have read and seek attributes''), w))) \<and>
   (ipe fp \<and> truthy w rd = Inr False \<longrightarrow>
      get_rawdata ipe \<lparr>kw_filepath = fp, kw_rawdata = rd, kw_writable = wr\<rparr> w = (Inr ObjNone, w))"
proof (intro conjI impI)
  assume "\<not> ipe fp \<and> truthy w rd = Inr True"
  then show "get_rawdata ipe \<lparr>kw_filepath = fp, kw_rawdata = rd, kw_writable = wr\<rparr> w =
        (Inl (TypeError ''Provide either rawdata or filepath, not both.''), w)"
    by (simp add: get_rawdata_def)
next
  assume "ipe fp \<and> bs \<noteq> []"
  then show "get_rawdata ipe \<lparr>kw_filepath = fp, kw_rawdata = ObjBytes bs, kw_writable = wr\<rparr> w =
        (Inr (ObjBytesBuffer \<lparr>bb_data = bs, bb_pos = 0\<rparr>), w)"
    by (simp add: get_rawdata_def truthy_def bytes_of_def BytesBuffer_init_def)
next
  assume h: "ipe fp \<and> deref w a = Some (Bytearray bs) \<and> bs \<noteq> []"
  then show "get_rawdata ipe \<lparr>kw_filepath = fp, kw_rawdata = ObjRef a, kw_writable = wr\<rparr> w =
        (Inr (ObjRef (length (heap w))),
         w\<lparr>heap := heap w @ [BytearrayBufferObj \<lparr>ba_data = bs, ba_pos = 0\<rparr>]\<rparr>)"
    by (simp add: get_rawdata_def truthy_def bytes_of_def bytearray_of_def alloc_def
        BytearrayBuffer_init_def)
  from h show "a \<noteq> length (heap w)"
    by (auto simp: deref_def split: if_splits)
next
  assume "ipe fp \<and> truthy w rd = Inr True \<and> bytes_of rd = None \<and> bytearray_of w rd = None"
  then show "get_rawdata ipe \<lparr>kw_filepath = fp, kw_rawdata = rd, kw_writable = wr\<rparr> w =
        (if hasattr w rd ''read'' \<and> hasattr w rd ''seek'' then (Inr rd, w)
         else (Inl (TypeError ''If rawdata is provided it must have read and seek attributes''), w))"
    by (simp add: get_rawdata_def)
next
  assume "ipe fp \<and> truthy w rd = Inr False"
  then show "get_rawdata ipe \<lparr>kw_filepath = fp, kw_rawdata = rd, kw_writable = wr\<rparr> w = (Inr ObjNone, w)"
    by (simp add: get_rawdata_def)
qed

theorem get_rawdata_cases_witness:
  "fst (get_rawdata Option.is_none
         \<lparr>kw_filepath = Some ''f'', kw_rawdata = ObjBytes [1], kw_writable = True\<rparr>
         \<lparr>heap = [Bytearray [1, 2, 3]], files = Map.empty\<rparr>) =
     Inl (TypeError ''Provide either rawdata or filepath, not both.'') \<and>
   fst (get_rawdata Option.is_none
         \<lparr>kw_filepath = None, kw_rawdata = ObjBytes [1, 2], kw_writable = True\<rparr>
         \<lparr>heap = [Bytearray [1, 2, 3]], files = Map.empty\<rparr>) =
     Inr (ObjBytesBuffer \<lparr>bb_data = [1, 2], bb_pos = 0\<rparr>) \<and>
   fst (get_rawdata Option.is_none
         \<lparr>kw_filepath = None, kw_rawdata = ObjRef 0, kw_writable = True\<rparr>
         \<lparr>heap = [Bytearray [1, 2, 3]], files = Map.empty\<rparr>) = Inr (ObjRef 1) \<and>
   heap (snd (get_rawdata Option.is_none
         \<lparr>kw_filepath = None, kw_rawdata = ObjRef 0, kw_writable = True\<rparr>
         \<lparr>heap = [Bytearray [1, 2, 3]], files = Map.empty\<rparr>)) =
     [Bytearray [1, 2, 3], BytearrayBufferObj \<lparr>ba_data = [1, 2, 3], ba_pos = 0\<rparr>] \<and>
   fst (get_rawdata Option.is_none
         \<lparr>kw_filepath = None, kw_rawdata = ObjOther True [''read'', ''seek''], kw_writable = True\<rparr>
         \<lparr>heap = [Bytearray [1, 2, 3]], files = Map.empty\<rparr>) =
     Inr (ObjOther True [''read'', ''seek'']) \<and>
   fst (get_rawdata Option.is_none
         \<lparr>kw_filepath = None, kw_rawdata = ObjOther True [''read''], kw_writable = True\<rparr>
         \<lparr>heap = [Bytearray [1, 2, 3]], files = Map.empty\<rparr>) =
     Inl (TypeError ''If rawdata is provided it must have read and seek attributes'') \<and>
   fst (get_rawdata Option.is_none
         \<lparr>kw_filepath = None, kw_rawdata = ObjBytes [], kw_writable = True\<rparr>
         \<lparr>heap = [Bytearray [1, 2, 3]], files = Map.empty\<rparr>) = Inr ObjNone"
proof -
  let ?W = "\<lparr>heap = [Bytearray [1, 2, 3]], files = Map.empty\<rparr>"
  note c1 = get_rawdata_cases [of Option.is_none "Some ''f''" ?W "ObjBytes [1]" True "[1, 2]" 0]
  note c2 = get_rawdata_cases [of Option.is_none None ?W "ObjBytes []" True "[1, 2]" 0]
  note c3 = get_rawdata_cases [of Option.is_none None ?W "ObjOther True [''read'', ''seek'']" True
      "[1, 2, 3]" 0]
  note c4 = get_rawdata_cases [of Option.is_none None ?W "ObjOther True [''read'']" True "[1, 2, 3]" 0]
  have t1: "\<not> Option.is_none (Some ''f'') \<and> truthy ?W (ObjBytes [1]) = Inr True"
    by (simp add: truthy_def)
  have t2: "Option.is_none (None :: string option) \<and> [1, 2 :: byte] \<noteq> []" by simp
  have t3: "Option.is_none (None :: string option) \<and> deref ?W 0 = Some (Bytearray [1, 2, 3])
              \<and> [1, 2, 3 :: byte] \<noteq> []"
    by (simp add: deref_def)
  have t4: "Option.is_none (None :: string option) \<and>
      truthy ?W (ObjOther True [''read'', ''seek'']) = Inr True \<and>
      bytes_of (ObjOther True [''read'', ''seek'']) = None \<and>
      bytearray_of ?W (ObjOther True [''read'', ''seek'']) = None"
    by (simp add: truthy_def bytes_of_def bytearray_of_def)
  have t5: "Option.is_none (None :: string option) \<and>
      truthy ?W (ObjOther True [''read'']) = Inr True \<and>
      bytes_of (ObjOther True [''read'']) = None \<and>
      bytearray_of ?W (ObjOther True [''read'']) = None"
    by (simp add: truthy_def bytes_of_def bytearray_of_def)
  have t6: "Option.is_none (None :: string option) \<and> truthy ?W (ObjBytes []) = Inr False"
    by (simp add: truthy_def)
  have h4: "hasattr ?W (ObjOther True [''read'', ''seek'']) ''read'' \<and>
            hasattr ?W (ObjOther True [''read'', ''seek'']) ''seek''"
    by (simp add: hasattr_def)
  have h5: "\<not> hasattr ?W (ObjOther True [''read'']) ''seek''"
    by (simp add: hasattr_def)
  have r1: "fst (get_rawdata Option.is_none
         \<lparr>kw_filepath = Some ''f'', kw_rawdata = ObjBytes [1], kw_writable = True\<rparr> ?W) =
     Inl (TypeError ''Provide either rawdata or filepath, not both.'')"
    using c1 [THEN conjunct1, rule_format, OF t1] by simp
  have r2: "fst (get_rawdata Option.is_none
         \<lparr>kw_filepath = None, kw_rawdata = ObjBytes [1, 2], kw_writable = True\<rparr> ?W) =
     Inr (ObjBytesBuffer \<lparr>bb_data = [1, 2], bb_pos = 0\<rparr>)"
    using c2 [THEN conjunct2, THEN conjunct1, rule_format, OF t2] by simp
  have r3: "get_rawdata Option.is_none
         \<lparr>kw_filepath = None, kw_rawdata = ObjRef 0, kw_writable = True\<rparr> ?W =
     (Inr (ObjRef (length (heap ?W))),
      ?W\<lparr>heap := heap ?W @ [BytearrayBufferObj \<lparr>ba_data = [1, 2, 3], ba_pos = 0\<rparr>]\<rparr>)"
    using c3 [THEN conjunct2, THEN conjunct2, THEN conjunct1, rule_format, OF t3] by blast
  have r4: "fst (get_rawdata Option.is_none
         \<lparr>kw_filepath = None, kw_rawdata = ObjOther True [''read'', ''seek''], kw_writable = True\<rparr>
         ?W) = Inr (ObjOther True [''read'', ''seek''])"
    using c3 [THEN conjunct2, THEN conjunct2, THEN conjunct2, THEN conjunct1, rule_format, OF t4] h4
    by simp
  have r5: "fst (get_rawdata Option.is_none
         \<lparr>kw_filepath = None, kw_rawdata = ObjOther True [''read''], kw_writable = True\<rparr> ?W) =
     Inl (TypeError ''If rawdata is provided it must have read and seek attributes'')"
    using c4 [THEN conjunct2, THEN conjunct2, THEN conjunct2, THEN conjunct1, rule_format, OF t5] h5
    by simp
  have r6: "fst (get_rawdata Option.is_none
         \<lparr>kw_filepath = None, kw_rawdata = ObjBytes [], kw_writable = True\<rparr> ?W) = Inr ObjNone"
    using c2 [THEN conjunct2, THEN conjunct2, THEN conjunct2, THEN conjunct2, rule_format, OF t6]
    by simp
  show ?thesis
    unfolding r1 r2 r3 r4 r5 r6 by simp
qed

text \<open>
  C8 as stated has the buffer made from a bytearray share the bytearray's content. It
  does not: \<^verbatim>\<open>BytearrayBuffer(rawdata)\<close> fills a new bytearray. After a write of one byte
  through the returned buffer, the caller's bytearray still holds its three bytes and only
  the buffer has changed.
\<close>

theorem get_rawdata_bytearray_not_shared:
  "get_rawdata Option.is_none
     \<lparr>kw_filepath = None, kw_rawdata = ObjRef 0, kw_writable = True\<rparr>
     \<lparr>heap = [Bytearray [1, 2, 3]], files = Map.empty\<rparr> =
     (Inr (ObjRef 1),
      \<lparr>heap = [Bytearray [1, 2, 3], BytearrayBufferObj \<lparr>ba_data = [1, 2, 3], ba_pos = 0\<rparr>],
       files = Map.empty\<rparr>) \<and>
   BytearrayBuffer_write_at 1 [9]
     \<lparr>heap = [Bytearray [1, 2, 3], BytearrayBufferObj \<lparr>ba_data = [1, 2, 3], ba_pos = 0\<rparr>],
      files = Map.empty\<rparr> =
     Some (Inr (),
      \<lparr>heap = [Bytearray [1, 2, 3], BytearrayBufferObj \<lparr>ba_data = [9, 2, 3], ba_pos = 1\<rparr>],
       files = Map.empty\<rparr>)"
proof -
  have w: "BytearrayBuffer_write [9] \<lparr>ba_data = [1, 2, 3], ba_pos = 0\<rparr> =
      (Inr (), \<lparr>ba_data = [9, 2, 3], ba_pos = 1\<rparr>)"
    by code_simp
  show ?thesis
    by (simp add: get_rawdata_def truthy_def bytes_of_def bytearray_of_def alloc_def deref_def
        BytearrayBuffer_init_def BytearrayBuffer_write_at_def w)
qed

section \<open>The scoped resolver\<close>

lemma get_rawdata_without_rawdata:
  assumes "kw_rawdata kw = ObjNone" and "get_rawdata ipe kw w = (Inr r, w')"
  shows "(r = ObjNone \<and> w' = w) \<or>
     (r = ObjRef (length (heap w)) \<and>
      ((\<exists>m. deref w' (length (heap w)) = Some (MmapObj m) \<and> \<not> mm_closed m \<and> mm_exports m = 0) \<or>
       (\<exists>f. deref w' (length (heap w)) = Some (FileObj f) \<and> \<not> f_closed f)))"
  using assms
  by (auto simp: get_rawdata_def truthy_def open_rawdata_def mmap_or_file_def alloc_def deref_def
      Let_def split: if_splits option.splits)

lemma obj_close_mmap:
  "deref w a = Some (MmapObj m) \<Longrightarrow>
   obj_close (ObjRef a) w =
     (if mm_exports m > 0 then (Inl (BufferError ''cannot close exported pointers exist''), w)
      else (Inr (), w\<lparr>heap := (heap w)[a := MmapObj (m\<lparr>mm_closed := True\<rparr>)]\<rparr>))"
proof -
  assume d: "deref w a = Some (MmapObj m)"
  then have "(heap w)[a := MmapObj m] = heap w"
    by (auto simp: deref_def list_update_same_conv split: if_splits)
  then have "w\<lparr>heap := (heap w)[a := MmapObj m]\<rparr> = w" by simp
  then show ?thesis using d by (simp add: obj_close_def mmap_close_def)
qed

lemma obj_close_file:
  "deref w a = Some (FileObj f) \<Longrightarrow>
   obj_close (ObjRef a) w = (Inr (), w\<lparr>heap := (heap w)[a := FileObj (f\<lparr>f_closed := True\<rparr>)]\<rparr>)"
  by (simp add: obj_close_def)

text \<open>
  C9, as amended. Let \<^verbatim>\<open>get_rawdata_context(**kwargs)\<close> have been constructed, and let \<open>w\<close> be
  the state in which \<^verbatim>\<open>__exit__\<close> runs; it runs the same way after a normal end of the block
  and after an exception. When \<^verbatim>\<open>rawdata\<close> was supplied, \<^verbatim>\<open>__exit__\<close> returns and changes
  nothing: the object is never closed. When it was not, either the resolver returned
  \<^verbatim>\<open>None\<close>, and the \<^verbatim>\<open>AttributeError\<close> of \<^verbatim>\<open>None.close()\<close> is swallowed, or it created a file
  object or a mapping at a fresh address: \<^verbatim>\<open>__exit__\<close> closes the file object, closes the
  mapping when no buffer export of it is alive, and otherwise lets the \<^verbatim>\<open>BufferError\<close> of
  \<^verbatim>\<open>close\<close> reach the caller, since only \<^verbatim>\<open>AttributeError\<close> is handled.
\<close>

theorem context_exit_closes_own:
  assumes "context_init ipe kw w0 = (Inr ctx, w1)"
  shows "(kw_rawdata kw \<noteq> ObjNone \<longrightarrow> context_exit ctx w = (Inr (), w)) \<and>
    (kw_rawdata kw = ObjNone \<longrightarrow>
       (ctx_rawdata ctx = ObjNone \<and> context_exit ctx w = (Inr (), w)) \<or>
       (ctx_rawdata ctx = ObjRef (length (heap w0)) \<and>
        (\<forall>f. deref w (length (heap w0)) = Some (FileObj f) \<longrightarrow>
           fst (context_exit ctx w) = Inr () \<and>
           is_closed (snd (context_exit ctx w)) (ctx_rawdata ctx)) \<and>
        (\<forall>m. deref w (length (heap w0)) = Some (MmapObj m) \<and> mm_exports m = 0 \<longrightarrow>
           fst (context_exit ctx w) = Inr () \<and>
           is_closed (snd (context_exit ctx w)) (ctx_rawdata ctx)) \<and>
        (\<forall>m. deref w (length (heap w0)) = Some (MmapObj m) \<and> 0 < mm_exports m \<longrightarrow>
           context_exit ctx w =
             (Inl (BufferError ''cannot close exported pointers exist''), w))))"
proof -
  obtain r where g: "get_rawdata ipe kw w0 = (Inr r, w1)"
    and c: "ctx = \<lparr>ctx_rawdata = r, ctx_close_rawdata = (kw_rawdata kw = ObjNone)\<rparr>"
    using assms by (auto simp: context_init_def Let_def split: prod.splits sum.splits)
  have supplied: "context_exit ctx w = (Inr (), w)" if "kw_rawdata kw \<noteq> ObjNone"
    using that by (simp add: c context_exit_def)
  have own: "(ctx_rawdata ctx = ObjNone \<and> context_exit ctx w = (Inr (), w)) \<or>
       (ctx_rawdata ctx = ObjRef (length (heap w0)) \<and>
        (\<forall>f. deref w (length (heap w0)) = Some (FileObj f) \<longrightarrow>
           fst (context_exit ctx w) = Inr () \<and>
           is_closed (snd (context_exit ctx w)) (ctx_rawdata ctx)) \<and>
        (\<forall>m. deref w (length (heap w0)) = Some (MmapObj m) \<and> mm_exports m = 0 \<longrightarrow>
           fst (context_exit ctx w) = Inr () \<and>
           is_closed (snd (context_exit ctx w)) (ctx_rawdata ctx)) \<and>
        (\<forall>m. deref w (length (heap w0)) = Some (MmapObj m) \<and> 0 < mm_exports m \<longrightarrow>
           context_exit ctx w =
             (Inl (BufferError ''cannot close exported pointers exist''), w)))"
    if n: "kw_rawdata kw = ObjNone"
  proof -
    from get_rawdata_without_rawdata [OF n g]
    have "r = ObjNone \<or> r = ObjRef (length (heap w0))" by blast
    then show ?thesis
    proof
      assume "r = ObjNone"
      then show ?thesis using n by (simp add: c context_exit_def obj_close_def)
    next
      assume r: "r = ObjRef (length (heap w0))"
      have "fst (context_exit ctx w) = Inr () \<and>
            is_closed (snd (context_exit ctx w)) (ctx_rawdata ctx)"
        if "deref w (length (heap w0)) = Some (FileObj f)" for f
        using that n r obj_close_file [OF that]
        by (auto simp: c context_exit_def is_closed_def deref_def split: if_splits)
      moreover have "fst (context_exit ctx w) = Inr () \<and>
            is_closed (snd (context_exit ctx w)) (ctx_rawdata ctx)"
        if "deref w (length (heap w0)) = Some (MmapObj m) \<and> mm_exports m = 0" for m
        using that n r obj_close_mmap [of w "length (heap w0)" m]
        by (auto simp: c context_exit_def is_closed_def deref_def split: if_splits)
      moreover have "context_exit ctx w =
             (Inl (BufferError ''cannot close exported pointers exist''), w)"
        if "deref w (length (heap w0)) = Some (MmapObj m) \<and> 0 < mm_exports m" for m
        using that n r obj_close_mmap [of w "length (heap w0)" m]
        by (auto simp: c context_exit_def)
      moreover have "ctx_rawdata ctx = ObjRef (length (heap w0))" by (simp add: c r)
      ultimately show ?thesis by blast
    qed
  qed
  show ?thesis using supplied own by blast
qed

theorem context_exit_closes_own_witness:
  "context_init Option.is_none
     \<lparr>kw_filepath = Some ''f'', kw_rawdata = ObjNone, kw_writable = True\<rparr>
     \<lparr>heap = [], files = [''f'' \<mapsto> [1, 2, 3]]\<rparr> =
     (Inr \<lparr>ctx_rawdata = ObjRef 0, ctx_close_rawdata = True\<rparr>,
      \<lparr>heap = [MmapObj \<lparr>mm_data = [1, 2, 3], mm_pos = 0, mm_closed = False, mm_exports = 0,
                         mm_access = ACCESS_WRITE\<rparr>],
       files = [''f'' \<mapsto> [1, 2, 3]]\<rparr>) \<and>
   fst (context_exit \<lparr>ctx_rawdata = ObjRef 0, ctx_close_rawdata = True\<rparr>
     \<lparr>heap = [MmapObj \<lparr>mm_data = [1, 2, 3], mm_pos = 2, mm_closed = False, mm_exports = 0,
                        mm_access = ACCESS_WRITE\<rparr>],
      files = [''f'' \<mapsto> [1, 2, 3]]\<rparr>) = Inr () \<and>
   is_closed (snd (context_exit \<lparr>ctx_rawdata = ObjRef 0, ctx_close_rawdata = True\<rparr>
     \<lparr>heap = [MmapObj \<lparr>mm_data = [1, 2, 3], mm_pos = 2, mm_closed = False, mm_exports = 0,
                        mm_access = ACCESS_WRITE\<rparr>],
      files = [''f'' \<mapsto> [1, 2, 3]]\<rparr>)) (ObjRef 0) \<and>
   context_init Option.is_none
     \<lparr>kw_filepath = None, kw_rawdata = ObjOther True [''read'', ''seek'', ''close''],
      kw_writable = True\<rparr>
     \<lparr>heap = [], files = Map.empty\<rparr> =
     (Inr \<lparr>ctx_rawdata = ObjOther True [''read'', ''seek'', ''close''], ctx_close_rawdata = False\<rparr>,
      \<lparr>heap = [], files = Map.empty\<rparr>) \<and>
   context_exit \<lparr>ctx_rawdata = ObjOther True [''read'', ''seek'', ''close''], ctx_close_rawdata = False\<rparr>
     \<lparr>heap = [], files = Map.empty\<rparr> = (Inr (), \<lparr>heap = [], files = Map.empty\<rparr>)"
proof -
  let ?M = "\<lparr>mm_data = [1, 2, 3], mm_pos = 2, mm_closed = False, mm_exports = 0,
             mm_access = ACCESS_WRITE\<rparr>"
  let ?W = "\<lparr>heap = [MmapObj ?M], files = [''f'' \<mapsto> [1, 2, 3]]\<rparr>"
  let ?E = "\<lparr>heap = [], files = Map.empty\<rparr> :: world"
  have i1: "context_init Option.is_none
     \<lparr>kw_filepath = Some ''f'', kw_rawdata = ObjNone, kw_writable = True\<rparr>
     \<lparr>heap = [], files = [''f'' \<mapsto> [1, 2, 3]]\<rparr> =
     (Inr \<lparr>ctx_rawdata = ObjRef 0, ctx_close_rawdata = True\<rparr>,
      \<lparr>heap = [MmapObj \<lparr>mm_data = [1, 2, 3], mm_pos = 0, mm_closed = False, mm_exports = 0,
                         mm_access = ACCESS_WRITE\<rparr>],
       files = [''f'' \<mapsto> [1, 2, 3]]\<rparr>)"
    by (simp add: context_init_def get_rawdata_def truthy_def open_rawdata_def mmap_or_file_def
        alloc_def)
  have i2: "context_init Option.is_none
     \<lparr>kw_filepath = None, kw_rawdata = ObjOther True [''read'', ''seek'', ''close''],
      kw_writable = True\<rparr> ?E =
     (Inr \<lparr>ctx_rawdata = ObjOther True [''read'', ''seek'', ''close''], ctx_close_rawdata = False\<rparr>, ?E)"
    by (simp add: context_init_def get_rawdata_def truthy_def bytes_of_def bytearray_of_def
        hasattr_def)
  have d: "deref ?W (length (heap \<lparr>heap = [], files = [''f'' \<mapsto> [1, 2, 3 :: byte]]\<rparr>))
             = Some (MmapObj ?M) \<and> mm_exports ?M = 0"
    by (simp add: deref_def)
  from context_exit_closes_own [OF i1, of ?W] d
  have "fst (context_exit \<lparr>ctx_rawdata = ObjRef 0, ctx_close_rawdata = True\<rparr> ?W) = Inr () \<and>
        is_closed (snd (context_exit \<lparr>ctx_rawdata = ObjRef 0, ctx_close_rawdata = True\<rparr> ?W)) (ObjRef 0)"
    by simp
  moreover from context_exit_closes_own [OF i2, of ?E]
  have "context_exit \<lparr>ctx_rawdata = ObjOther True [''read'', ''seek'', ''close''],
          ctx_close_rawdata = False\<rparr> ?E = (Inr (), ?E)"
    by simp
  ultimately show ?thesis using i1 i2 by simp
qed

text \<open>
  C9 as stated has every failure of the close suppressed. The handler names
  \<^verbatim>\<open>AttributeError\<close> alone: when a \<^verbatim>\<open>memoryview\<close> of the created mapping is still alive at the
  end of the block, \<^verbatim>\<open>close\<close> raises \<^verbatim>\<open>BufferError\<close>, \<^verbatim>\<open>__exit__\<close> raises it too, and the
  mapping stays open.
\<close>

theorem context_exit_close_error_surfaces:
  "fst (context_init Option.is_none
     \<lparr>kw_filepath = Some ''f'', kw_rawdata = ObjNone, kw_writable = True\<rparr>
     \<lparr>heap = [], files = [''f'' \<mapsto> [1, 2, 3]]\<rparr>) =
     Inr \<lparr>ctx_rawdata = ObjRef 0, ctx_close_rawdata = True\<rparr> \<and>
   fst (context_exit \<lparr>ctx_rawdata = ObjRef 0, ctx_close_rawdata = True\<rparr>
     \<lparr>heap = [MmapObj \<lparr>mm_data = [1, 2, 3], mm_pos = 0, mm_closed = False, mm_exports = 1,
                        mm_access = ACCESS_WRITE\<rparr>],
      files = [''f'' \<mapsto> [1, 2, 3]]\<rparr>) =
     Inl (BufferError ''cannot close exported pointers exist'') \<and>
   \<not> is_closed (snd (context_exit \<lparr>ctx_rawdata = ObjRef 0, ctx_close_rawdata = True\<rparr>
     \<lparr>heap = [MmapObj \<lparr>mm_data = [1, 2, 3], mm_pos = 0, mm_closed = False, mm_exports = 1,
                        mm_access = ACCESS_WRITE\<rparr>],
      files = [''f'' \<mapsto> [1, 2, 3]]\<rparr>)) (ObjRef 0)"
  by (simp add: context_init_def get_rawdata_def truthy_def open_rawdata_def mmap_or_file_def
      alloc_def context_exit_def obj_close_def mmap_close_def deref_def is_closed_def)

end
